theory Spec2Isabelle
  imports Complex_Main "HOL-Library.Sublist"
begin

section \<open>Values of the JavaScript program\<close>

text \<open>
  The orchestrator of \<^verbatim>\<open>src/renderer/RenderingPipeline.js\<close> and the framebuffer objects of
  \<^verbatim>\<open>src/renderer/Framebuffer.js\<close> are embedded as functions on an explicit pipeline
  state. A JavaScript number that may be \<^verbatim>\<open>NaN\<close> or infinite (the scalars of a camera,
  the second argument of the sample-rendered callback, the jitter) is a \<open>number\<close>;
  timestamps and sizes, which the embedding application passes as finite numbers, are
  \<open>real\<close>, and \<^verbatim>\<open>null\<close> is \<open>None\<close>. Rounding and the sign of zero are not modelled.
\<close>

datatype number = Num real | PosInf | NegInf | NaN

text \<open>\<^verbatim>\<open>a === b\<close> on two numbers: \<^verbatim>\<open>NaN\<close> is equal to nothing, itself included.\<close>

definition strict_eq :: "number \<Rightarrow> number \<Rightarrow> bool" where
  "strict_eq a b = (a \<noteq> NaN \<and> b \<noteq> NaN \<and> a = b)"

text \<open>\<^verbatim>\<open>a / b\<close> on two finite numbers.\<close>

definition js_div :: "real \<Rightarrow> real \<Rightarrow> number" where
  "js_div a b =
     (if b = 0 then (if a = 0 then NaN else if 0 < a then PosInf else NegInf)
      else Num (a / b))"

text \<open>\<^verbatim>\<open>null\<close> coerced to a number by \<^verbatim>\<open>-\<close>: \<^verbatim>\<open>null\<close> is 0.\<close>

definition coerce :: "real option \<Rightarrow> real" where
  "coerce v = (case v of None \<Rightarrow> 0 | Some t \<Rightarrow> t)"

text \<open>\<^verbatim>\<open>d || NaN\<close> on a finite number: 0 is falsy.\<close>

definition or_NaN :: "real \<Rightarrow> number" where
  "or_NaN d = (if d = 0 then NaN else Num d)"

text \<open>
  A camera snapshot: \<^verbatim>\<open>matrixWorld.elements\<close>, \<^verbatim>\<open>aspect\<close> and \<^verbatim>\<open>fov\<close>, the three
  properties \<^verbatim>\<open>areCamerasEqual\<close> reads.
\<close>

record camera =
  matrixWorld :: "number list"
  aspect :: number
  fov :: number

text \<open>
  Modelled from the spec: \<^verbatim>\<open>numberArraysEqual\<close> is imported from \<^verbatim>\<open>./util\<close>, which is not
  among the sources. The spec asks for a test that is reflexive and that detects any
  single differing matrix entry, so the helper holds exactly when the two arrays hold
  the same numbers at the same places. Nothing in the sources decides what the real
  helper does with \<^verbatim>\<open>NaN\<close> entries or with entries that differ by little.
\<close>

definition numberArraysEqual :: "number list \<Rightarrow> number list \<Rightarrow> bool" where
  "numberArraysEqual a b = (a = b)"

definition areCamerasEqual :: "camera \<Rightarrow> camera \<Rightarrow> bool" where
  "areCamerasEqual cam1 cam2 =
     (numberArraysEqual (matrixWorld cam1) (matrixWorld cam2) \<and>
      strict_eq (aspect cam1) (aspect cam2) \<and>
      strict_eq (fov cam1) (fov cam2))"

text \<open>
  Modelled from the spec: \<^verbatim>\<open>clamp\<close> is imported from \<^verbatim>\<open>./util\<close>, which is not among the
  sources. The spec uses \<^verbatim>\<open>clamp(v, 0, 1)\<close> for a scalar kept in the interval from 0 to 1.
\<close>

definition clamp :: "real \<Rightarrow> real \<Rightarrow> real \<Rightarrow> real" where
  "clamp v lo hi = min (max v lo) hi"

text \<open>
  A framebuffer object is the number it was created under, and \<^verbatim>\<open>buffer.color[k]\<close> is
  the texture \<open>Color buffer k\<close>, where \<open>k\<close> is the literal index 0 or an output location
  a draw pass reports. Textures are made by a collaborator (\<^verbatim>\<open>./Texture\<close>).
\<close>

datatype framebuffer = Framebuffer nat

datatype slot = Slot nat | Light_loc | Position_loc

datatype texture = Color framebuffer slot

type_synonym vec2 = "real \<times> real"

record tile =
  tile_x :: real
  tile_y :: real
  tileWidth :: real
  tileHeight :: real
  isFirstTile :: bool
  isLastTile :: bool

record renderSize =
  size_width :: real
  size_height :: real
  size_scale :: vec2

record reprojectArgs =
  blendAmount :: real
  light :: texture
  lightScale :: vec2
  position :: texture
  previousLight :: "texture option"
  previousLightScale :: vec2
  previousPosition :: texture

text \<open>
  The surroundings of one call of the orchestrator. \<open>globalGl\<close> tells whether the free
  variable \<^verbatim>\<open>gl\<close> that \<^verbatim>\<open>bindFramebuffer\<close> reads (\<^verbatim>\<open>Framebuffer.js\<close>, line 2) resolves:
  whether the page declares a global \<^verbatim>\<open>gl\<close> holding the rendering context. The other
  fields are what the collaborators answer: the tile that \<^verbatim>\<open>tileRender.nextTile\<close> returns,
  the size the preview sizer holds after \<^verbatim>\<open>adjustSize\<close> and after \<^verbatim>\<open>setSize\<close>, the two
  values of \<^verbatim>\<open>Math.random()\<close>, and the size of the drawing buffer.
\<close>

record env =
  globalGl :: bool
  nextTile_result :: tile
  adjustSize_result :: renderSize
  setSize_result :: renderSize
  random_x :: real
  random_y :: real
  drawingBufferWidth :: real
  drawingBufferHeight :: real

datatype target = LightTarget | GBufferTarget

datatype clearMask = COLOR_BUFFER_BIT | COLOR_AND_DEPTH_BUFFER_BIT

datatype capability = BLEND | SCISSOR_TEST

text \<open>
  Every call the orchestrator makes on a collaborator or on the GL context, in the order
  it makes them: the methods of the tile scheduler, the preview sizer and the four draw
  passes, the calls on the context, and the invocation of the sample-rendered callback
  (whatever function the application has set). \<open>Framebuffer_bind b\<close> and
  \<open>Framebuffer_unbind b\<close> are the calls of \<^verbatim>\<open>gl.bindFramebuffer\<close> with the framebuffer and
  with \<^verbatim>\<open>null\<close>; \<open>Framebuffer_attach b t\<close> stands for the loop of \<^verbatim>\<open>makeFramebuffer\<close> over
  the colour attachments, \<^verbatim>\<open>gl.drawBuffers\<close> and the depth attachment.
\<close>

datatype call =
    TileRender_setSize real real
  | TileRender_reset
  | TileRender_nextTile "real option"
  | PreviewSize_setSize real real
  | PreviewSize_adjustSize "real option"
  | RayTrace_setNoise
  | RayTrace_setSize real real
  | RayTrace_setJitter number number
  | RayTrace_setStrataCount nat
  | RayTrace_nextSeed
  | RayTrace_setGBuffers framebuffer
  | RayTrace_setCamera camera
  | RayTrace_bindTextures
  | RayTrace_draw
  | GBuffer_setJitter number number
  | GBuffer_setCamera camera
  | GBuffer_draw
  | Reproject_setJitter number number
  | Reproject_setPreviousCamera camera
  | Reproject_draw reprojectArgs
  | ToneMap_draw texture vec2 texture
  | GL_createFramebuffer
  | Framebuffer_bind framebuffer
  | Framebuffer_attach framebuffer target
  | Framebuffer_unbind framebuffer
  | GL_clear clearMask
  | GL_viewport real real real real
  | GL_scissor real real real real
  | GL_enable capability
  | GL_disable capability
  | GL_blendEquation_FUNC_ADD
  | GL_blendFunc_ONE_ONE
  | SampleRendered nat number

record pipeline =
  ready :: bool
  frameTime :: "real option"
  elapsedFrameTime :: "real option"
  sampleTime :: "real option"
  sampleCount :: nat
  numPreviewsRendered :: nat
  firstFrame :: bool
  lastCamera :: camera
  screenWidth :: real
  screenHeight :: real
  lastToneMappedScale :: vec2
  hdrBuffer :: "framebuffer option"
  hdrBackBuffer :: "framebuffer option"
  reprojectBuffer :: "framebuffer option"
  reprojectBackBuffer :: "framebuffer option"
  gBuffer :: "framebuffer option"
  gBufferBack :: "framebuffer option"
  lastToneMappedTexture :: "texture option"
  previewSize :: renderSize
  framebuffersMade :: nat
  calls :: "call list"

section \<open>The state of the pipeline\<close>

definition maxReprojectedSamples :: nat where
  "maxReprojectedSamples = 20"

definition numUniformSamples :: nat where
  "numUniformSamples = 4"

definition strataCount :: nat where
  "strataCount = 6"

definition previewFramesBeforeBenchmark :: nat where
  "previewFramesBeforeBenchmark = 2"

definition fullscreenScale :: vec2 where
  "fullscreenScale = (1, 1)"

text \<open>
  \<^verbatim>\<open>new PerspectiveCamera()\<close> of three.js (fov 50, aspect 1) moved to (1, 1, 1), after
  \<^verbatim>\<open>updateMatrixWorld()\<close>: the column-major world matrix of that translation.
\<close>

definition initialCamera :: camera where
  "initialCamera =
     \<lparr>matrixWorld = map Num [1, 0, 0, 0, 0, 1, 0, 0, 0, 0, 1, 0, 1, 1, 1, 1],
      aspect = Num 1, fov = Num 50\<rparr>"

text \<open>The constructor; its argument is the state of the preview sizer \<^verbatim>\<open>makeRenderSize\<close> returns.\<close>

definition newRenderingPipeline :: "renderSize \<Rightarrow> pipeline" where
  "newRenderingPipeline ps =
     \<lparr>ready = False, frameTime = None, elapsedFrameTime = None, sampleTime = None,
      sampleCount = 0, numPreviewsRendered = 0, firstFrame = True,
      lastCamera = initialCamera, screenWidth = 0, screenHeight = 0,
      lastToneMappedScale = fullscreenScale,
      hdrBuffer = None, hdrBackBuffer = None,
      reprojectBuffer = None, reprojectBackBuffer = None,
      gBuffer = None, gBufferBack = None,
      lastToneMappedTexture = None, previewSize = ps, framebuffersMade = 0, calls = []\<rparr>"

definition emit :: "call list \<Rightarrow> pipeline \<Rightarrow> pipeline" where
  "emit cs s = s\<lparr>calls := calls s @ cs\<rparr>"

text \<open>The \<^verbatim>\<open>onload\<close> handler of the noise image.\<close>

definition noiseLoaded :: "pipeline \<Rightarrow> pipeline" where
  "noiseLoaded s = (emit [RayTrace_setNoise] s)\<lparr>ready := True\<rparr>"

section \<open>Exceptions\<close>

text \<open>
  A method either returns or throws, and a method that throws leaves the pipeline with
  the assignments and the calls it had made by then. There are two exceptions: the
  TypeError of a property read on \<^verbatim>\<open>null\<close> (a buffer before the first \<^verbatim>\<open>setSize\<close>), and
  the ReferenceError of \<^verbatim>\<open>bindFramebuffer\<close> where no global \<^verbatim>\<open>gl\<close> is declared.
\<close>

datatype exn = TypeError | ReferenceError

datatype outcome = Returns pipeline | Throws exn pipeline

fun andThen :: "outcome \<Rightarrow> (pipeline \<Rightarrow> outcome) \<Rightarrow> outcome" where
  "andThen (Returns s) f = f s"
| "andThen (Throws x s) f = Throws x s"

fun stateOf :: "outcome \<Rightarrow> pipeline" where
  "stateOf (Returns s) = s"
| "stateOf (Throws x s) = s"

fun returned :: "outcome \<Rightarrow> bool" where
  "returned (Returns s) = True"
| "returned (Throws x s) = False"

text \<open>Reading a property of a buffer that may be \<^verbatim>\<open>null\<close>.\<close>

definition withBuffer :: "framebuffer option \<Rightarrow> pipeline \<Rightarrow> (framebuffer \<Rightarrow> outcome) \<Rightarrow> outcome" where
  "withBuffer buffer s k = (case buffer of None \<Rightarrow> Throws TypeError s | Some b \<Rightarrow> k b)"

section \<open>Framebuffer objects\<close>

text \<open>
  \<^verbatim>\<open>bindFramebuffer\<close> evaluates \<^verbatim>\<open>gl.FRAMEBUFFER\<close> with \<^verbatim>\<open>gl\<close> a free variable of the
  module, before it can call the context; \<^verbatim>\<open>unbindFramebuffer\<close> reads \<^verbatim>\<open>this.gl\<close>.
\<close>

definition bindFramebuffer :: "env \<Rightarrow> framebuffer \<Rightarrow> pipeline \<Rightarrow> outcome" where
  "bindFramebuffer e b s =
     (if globalGl e then Returns (emit [Framebuffer_bind b] s) else Throws ReferenceError s)"

definition unbindFramebuffer :: "framebuffer \<Rightarrow> pipeline \<Rightarrow> pipeline" where
  "unbindFramebuffer b s = emit [Framebuffer_unbind b] s"

text \<open>
  \<^verbatim>\<open>makeFramebuffer\<close>: the new framebuffer is created, bound, given its attachments and
  unbound; \<open>k\<close> is what the caller does with the object returned.
\<close>

definition makeFramebuffer ::
  "env \<Rightarrow> target \<Rightarrow> (framebuffer \<Rightarrow> pipeline \<Rightarrow> outcome) \<Rightarrow> pipeline \<Rightarrow> outcome" where
  "makeFramebuffer e t k s =
     (let b = Framebuffer (framebuffersMade s);
          s1 = (emit [GL_createFramebuffer] s)\<lparr>framebuffersMade := framebuffersMade s + 1\<rparr>
      in andThen (bindFramebuffer e b s1)
           (\<lambda>s2. k b (unbindFramebuffer b (emit [Framebuffer_attach b t] s2))))"

section \<open>The methods of the pipeline\<close>

text \<open>
  \<^verbatim>\<open>initFrameBuffers\<close> assigns the six buffers one after the other, each as soon as it
  is made; the textures it makes are the collaborator's and are not logged.
\<close>

definition initFrameBuffers :: "real \<Rightarrow> real \<Rightarrow> env \<Rightarrow> pipeline \<Rightarrow> outcome" where
  "initFrameBuffers w h e s =
     makeFramebuffer e LightTarget (\<lambda>b1 s1.
       makeFramebuffer e LightTarget (\<lambda>b2 s2.
         makeFramebuffer e LightTarget (\<lambda>b3 s3.
           makeFramebuffer e LightTarget (\<lambda>b4 s4.
             makeFramebuffer e GBufferTarget (\<lambda>b5 s5.
               makeFramebuffer e GBufferTarget (\<lambda>b6 s6.
                 Returns (s6\<lparr>gBufferBack := Some b6,
                             lastToneMappedTexture := Some (Color b1 Light_loc)\<rparr>))
               (s5\<lparr>gBuffer := Some b5\<rparr>))
             (s4\<lparr>reprojectBackBuffer := Some b4\<rparr>))
           (s3\<lparr>reprojectBuffer := Some b3\<rparr>))
         (s2\<lparr>hdrBackBuffer := Some b2\<rparr>))
       (s1\<lparr>hdrBuffer := Some b1\<rparr>))
     s"

definition swapReprojectBuffer :: "pipeline \<Rightarrow> pipeline" where
  "swapReprojectBuffer s =
     s\<lparr>reprojectBuffer := reprojectBackBuffer s, reprojectBackBuffer := reprojectBuffer s\<rparr>"

definition swapGBuffer :: "pipeline \<Rightarrow> pipeline" where
  "swapGBuffer s = s\<lparr>gBuffer := gBufferBack s, gBufferBack := gBuffer s\<rparr>"

definition swapHdrBuffer :: "pipeline \<Rightarrow> pipeline" where
  "swapHdrBuffer s = s\<lparr>hdrBuffer := hdrBackBuffer s, hdrBackBuffer := hdrBuffer s\<rparr>"

definition swapBuffers :: "pipeline \<Rightarrow> pipeline" where
  "swapBuffers s = swapHdrBuffer (swapGBuffer (swapReprojectBuffer s))"

definition setSize :: "real \<Rightarrow> real \<Rightarrow> env \<Rightarrow> pipeline \<Rightarrow> outcome" where
  "setSize w h e s =
     (let s1 = s\<lparr>screenWidth := w, screenHeight := h\<rparr>;
          s2 = emit [TileRender_setSize w h] s1;
          s3 = (emit [PreviewSize_setSize w h] s2)\<lparr>previewSize := setSize_result e\<rparr>
      in andThen (initFrameBuffers w h e s3) (\<lambda>s4. Returns (s4\<lparr>firstFrame := True\<rparr>)))"

definition time :: "real \<Rightarrow> pipeline \<Rightarrow> pipeline" where
  "time newTime s =
     s\<lparr>elapsedFrameTime := Some (newTime - coerce (frameTime s)), frameTime := Some newTime\<rparr>"

definition updateSeed :: "real \<Rightarrow> real \<Rightarrow> bool \<Rightarrow> env \<Rightarrow> pipeline \<Rightarrow> pipeline" where
  "updateSeed w h useJitter e s =
     (let s1 = emit [RayTrace_setSize w h] s;
          jitterX = (if useJitter then js_div (random_x e - 0.5) w else Num 0);
          jitterY = (if useJitter then js_div (random_y e - 0.5) h else Num 0);
          s2 = emit [GBuffer_setJitter jitterX jitterY, RayTrace_setJitter jitterX jitterY,
                     Reproject_setJitter jitterX jitterY] s1
      in if sampleCount s2 = 0 then emit [RayTrace_setStrataCount 1] s2
         else if sampleCount s2 = numUniformSamples then emit [RayTrace_setStrataCount strataCount] s2
         else emit [RayTrace_nextSeed] s2)"

definition clearBuffer :: "env \<Rightarrow> framebuffer option \<Rightarrow> pipeline \<Rightarrow> outcome" where
  "clearBuffer e buffer s =
     withBuffer buffer s (\<lambda>b.
       andThen (bindFramebuffer e b s)
         (\<lambda>s1. Returns (unbindFramebuffer b (emit [GL_clear COLOR_BUFFER_BIT] s1))))"

definition addSampleToBuffer ::
  "env \<Rightarrow> framebuffer option \<Rightarrow> real \<Rightarrow> real \<Rightarrow> pipeline \<Rightarrow> outcome" where
  "addSampleToBuffer e buffer w h s =
     withBuffer buffer s (\<lambda>b.
       andThen (bindFramebuffer e b s)
         (\<lambda>s1. Returns
            (unbindFramebuffer b
               (emit [GL_blendEquation_FUNC_ADD, GL_blendFunc_ONE_ONE, GL_enable BLEND,
                      GL_viewport 0 0 w h, RayTrace_draw, GL_disable BLEND] s1))))"

definition newSampleToBuffer ::
  "env \<Rightarrow> framebuffer option \<Rightarrow> real \<Rightarrow> real \<Rightarrow> pipeline \<Rightarrow> outcome" where
  "newSampleToBuffer e buffer w h s =
     withBuffer buffer s (\<lambda>b.
       andThen (bindFramebuffer e b s)
         (\<lambda>s1. Returns (unbindFramebuffer b (emit [GL_viewport 0 0 w h, RayTrace_draw] s1))))"

definition toneMapToScreen :: "texture \<Rightarrow> vec2 \<Rightarrow> env \<Rightarrow> pipeline \<Rightarrow> outcome" where
  "toneMapToScreen lightTexture scale e s =
     (let s1 = emit [GL_viewport 0 0 (drawingBufferWidth e) (drawingBufferHeight e)] s in
      withBuffer (gBuffer s1) s1 (\<lambda>g.
        Returns ((emit [ToneMap_draw lightTexture scale (Color g Position_loc)] s1)
                   \<lparr>lastToneMappedTexture := Some lightTexture, lastToneMappedScale := scale\<rparr>)))"

definition renderGBuffer :: "env \<Rightarrow> pipeline \<Rightarrow> outcome" where
  "renderGBuffer e s =
     withBuffer (gBuffer s) s (\<lambda>g.
       andThen (bindFramebuffer e g s)
         (\<lambda>s1. Returns
            (emit [RayTrace_setGBuffers g]
               (unbindFramebuffer g
                  (emit [GL_clear COLOR_AND_DEPTH_BUFFER_BIT,
                         GL_viewport 0 0 (screenWidth s1) (screenHeight s1), GBuffer_draw] s1)))))"

definition renderTile ::
  "env \<Rightarrow> framebuffer option \<Rightarrow> real \<Rightarrow> real \<Rightarrow> real \<Rightarrow> real \<Rightarrow> pipeline \<Rightarrow> outcome" where
  "renderTile e buffer x y w h s =
     (let s1 = emit [GL_scissor x y w h, GL_enable SCISSOR_TEST] s in
      andThen (addSampleToBuffer e buffer (screenWidth s1) (screenHeight s1) s1)
        (\<lambda>s2. Returns (emit [GL_disable SCISSOR_TEST] s2)))"

definition setCameras :: "camera \<Rightarrow> pipeline \<Rightarrow> pipeline" where
  "setCameras cam s =
     (emit [RayTrace_setCamera cam, GBuffer_setCamera cam,
            Reproject_setPreviousCamera (lastCamera s)] s)\<lparr>lastCamera := cam\<rparr>"

text \<open>
  \<^verbatim>\<open>drawPreview\<close> in two parts: lines 277 to 285, which swap the buffers, adjust the
  preview size and update the seed, and lines 287 to 307, the frame drawn at the width
  and height that the preview sizer holds by then.
\<close>

definition previewFrame :: "env \<Rightarrow> real \<Rightarrow> real \<Rightarrow> pipeline \<Rightarrow> outcome" where
  "previewFrame e w h s3 =
     andThen (renderGBuffer e s3) (\<lambda>s4.
     andThen (newSampleToBuffer e (hdrBuffer s4) w h (emit [RayTrace_bindTextures] s4)) (\<lambda>s6.
     withBuffer (reprojectBuffer s6) s6 (\<lambda>rb.
     andThen (bindFramebuffer e rb s6) (\<lambda>s6b.
     let s7 = emit [GL_viewport 0 0 w h] s6b in
     withBuffer (hdrBuffer s7) s7 (\<lambda>hdr.
     withBuffer (gBuffer s7) s7 (\<lambda>g.
     withBuffer (gBufferBack s7) s7 (\<lambda>gb.
     let s8 = unbindFramebuffer rb
                (emit [Reproject_draw
                         \<lparr>blendAmount = 1, light = Color hdr (Slot 0),
                          lightScale = size_scale (previewSize s7),
                          position = Color g Position_loc,
                          previousLight = lastToneMappedTexture s7,
                          previousLightScale = lastToneMappedScale s7,
                          previousPosition = Color gb Position_loc\<rparr>] s7)
     in andThen (toneMapToScreen (Color rb (Slot 0)) (size_scale (previewSize s8)) e s8)
          (\<lambda>s9. Returns (swapBuffers s9)))))))))"

definition drawPreview :: "env \<Rightarrow> pipeline \<Rightarrow> outcome" where
  "drawPreview e s =
     (let s1 = (if 0 < sampleCount s then swapBuffers s else s);
          s2 = (if previewFramesBeforeBenchmark \<le> numPreviewsRendered s1
                then (emit [PreviewSize_adjustSize (elapsedFrameTime s1)] s1)
                       \<lparr>previewSize := adjustSize_result e\<rparr>
                else s1);
          w = size_width (previewSize s2);
          h = size_height (previewSize s2)
      in previewFrame e w h (updateSeed w h False e s2))"

text \<open>Lines 332 and 333 of \<^verbatim>\<open>drawTile\<close>: the blend amount for a sample count.\<close>

definition blendAmountFor :: "nat \<Rightarrow> real" where
  "blendAmountFor n =
     (let b = clamp (1 - real n / real maxReprojectedSamples) 0 1 in b * b)"

text \<open>The three parts of \<^verbatim>\<open>drawTile\<close>: lines 313 to 325, line 327, lines 329 to 353.\<close>

definition startSweep :: "env \<Rightarrow> pipeline \<Rightarrow> outcome" where
  "startSweep e s =
     andThen
       (if sampleCount s = 0 then
          andThen (clearBuffer e (hdrBuffer s) s)
            (\<lambda>sb. Returns (emit [Reproject_setPreviousCamera (lastCamera sb)] sb))
        else
          Returns ((emit [SampleRendered (sampleCount s)
                            (or_NaN (coerce (frameTime s) - coerce (sampleTime s)))] s)
                     \<lparr>sampleTime := frameTime s\<rparr>))
       (\<lambda>sa. andThen (renderGBuffer e (updateSeed (screenWidth sa) (screenHeight sa) True e sa))
          (\<lambda>sd. Returns (emit [RayTrace_bindTextures] sd)))"

definition endSweep :: "env \<Rightarrow> pipeline \<Rightarrow> outcome" where
  "endSweep e s =
     (let s3 = s\<lparr>sampleCount := sampleCount s + 1\<rparr>;
          amount = blendAmountFor (sampleCount s3)
      in if 0 < amount then
           withBuffer (reprojectBuffer s3) s3 (\<lambda>rb.
           andThen (bindFramebuffer e rb s3) (\<lambda>s3b.
           let s4 = emit [GL_viewport 0 0 (screenWidth s3b) (screenHeight s3b)] s3b in
           withBuffer (hdrBuffer s4) s4 (\<lambda>hdr.
           withBuffer (gBuffer s4) s4 (\<lambda>g.
           withBuffer (reprojectBackBuffer s4) s4 (\<lambda>rbb.
           withBuffer (gBufferBack s4) s4 (\<lambda>gb.
           toneMapToScreen (Color rb (Slot 0)) fullscreenScale e
             (unbindFramebuffer rb
                (emit [Reproject_draw
                         \<lparr>blendAmount = amount, light = Color hdr (Slot 0),
                          lightScale = fullscreenScale,
                          position = Color g Position_loc,
                          previousLight = Some (Color rbb (Slot 0)),
                          previousLightScale = size_scale (previewSize s4),
                          previousPosition = Color gb Position_loc\<rparr>] s4))))))))
         else
           withBuffer (hdrBuffer s3) s3 (\<lambda>hdr.
             toneMapToScreen (Color hdr (Slot 0)) fullscreenScale e s3))"

definition drawTile :: "env \<Rightarrow> pipeline \<Rightarrow> outcome" where
  "drawTile e s =
     (let t = nextTile_result e;
          s0 = emit [TileRender_nextTile (elapsedFrameTime s)] s
      in andThen (if isFirstTile t then startSweep e s0 else Returns s0) (\<lambda>s1.
         andThen (renderTile e (hdrBuffer s1) (tile_x t) (tile_y t) (tileWidth t) (tileHeight t) s1)
           (\<lambda>s2. if isLastTile t then endSweep e s2 else Returns s2)))"

definition draw :: "env \<Rightarrow> camera \<Rightarrow> pipeline \<Rightarrow> outcome" where
  "draw e cam s =
     (if \<not> ready s then Returns s
      else if \<not> areCamerasEqual cam (lastCamera s) then
        (let s1 = setCameras cam s in
         andThen
           (if firstFrame s1 then Returns (s1\<lparr>firstFrame := False\<rparr>)
            else andThen (drawPreview e s1)
                   (\<lambda>sp. Returns (sp\<lparr>numPreviewsRendered := numPreviewsRendered sp + 1\<rparr>)))
           (\<lambda>s2. Returns ((emit [TileRender_reset] s2)\<lparr>sampleCount := 0\<rparr>)))
      else
        andThen (drawTile e s) (\<lambda>s1. Returns (s1\<lparr>numPreviewsRendered := 0\<rparr>)))"

definition drawFull :: "env \<Rightarrow> camera \<Rightarrow> pipeline \<Rightarrow> outcome" where
  "drawFull e cam s =
     (if \<not> ready s then Returns s
      else
        (let s1 = swapReprojectBuffer (swapGBuffer s) in
         andThen
           (if \<not> areCamerasEqual cam (lastCamera s1)
            then clearBuffer e (hdrBuffer s1) (s1\<lparr>sampleCount := 0\<rparr>)
            else Returns (s1\<lparr>sampleCount := sampleCount s1 + 1\<rparr>))
           (\<lambda>s2.
         let s3 = setCameras cam s2;
             s4 = updateSeed (screenWidth s3) (screenHeight s3) True e s3
         in andThen (renderGBuffer e s4) (\<lambda>s5.
            andThen (addSampleToBuffer e (hdrBuffer s5) (screenWidth s5) (screenHeight s5)
                       (emit [RayTrace_bindTextures] s5)) (\<lambda>s7.
            withBuffer (reprojectBuffer s7) s7 (\<lambda>rb.
            andThen (bindFramebuffer e rb s7) (\<lambda>s7b.
            let s8 = emit [GL_viewport 0 0 (screenWidth s7b) (screenHeight s7b)] s7b in
            withBuffer (hdrBuffer s8) s8 (\<lambda>hdr.
            withBuffer (gBuffer s8) s8 (\<lambda>g.
            withBuffer (gBufferBack s8) s8 (\<lambda>gb.
            toneMapToScreen (Color rb (Slot 0)) fullscreenScale e
              (unbindFramebuffer rb
                 (emit [Reproject_draw
                          \<lparr>blendAmount = 1, light = Color hdr (Slot 0),
                           lightScale = fullscreenScale,
                           position = Color g Position_loc,
                           previousLight = lastToneMappedTexture s8,
                           previousLightScale = lastToneMappedScale s8,
                           previousPosition = Color gb Position_loc\<rparr>] s8))))))))))))"

definition getTotalSamplesRendered :: "pipeline \<Rightarrow> nat" where
  "getTotalSamplesRendered s = sampleCount s"

section \<open>Requests of the embedding application\<close>

text \<open>
  The public interface of \<^verbatim>\<open>makeRenderingPipeline\<close>, and the completion of the noise
  image's load, as requests run in sequence. In \<open>run\<close> a request that throws ends the
  run, with the pipeline as the throw left it; in \<open>runCaught\<close> the application catches
  every exception and goes on with the next request.
\<close>

datatype request =
    Draw env camera
  | DrawFull env camera
  | Time real
  | SetSize real real env
  | NoiseLoaded

fun perform :: "request \<Rightarrow> pipeline \<Rightarrow> outcome" where
  "perform (Draw e cam) s = draw e cam s"
| "perform (DrawFull e cam) s = drawFull e cam s"
| "perform (Time t) s = Returns (time t s)"
| "perform (SetSize w h e) s = setSize w h e s"
| "perform NoiseLoaded s = Returns (noiseLoaded s)"

fun run :: "request list \<Rightarrow> pipeline \<Rightarrow> outcome" where
  "run [] s = Returns s"
| "run (r # rs) s = andThen (perform r s) (run rs)"

fun runCaught :: "request list \<Rightarrow> pipeline \<Rightarrow> pipeline" where
  "runCaught [] s = s"
| "runCaught (r # rs) s = runCaught rs (stateOf (perform r s))"

fun isDrawRequest :: "request \<Rightarrow> bool" where
  "isDrawRequest (Draw e cam) = True"
| "isDrawRequest (DrawFull e cam) = True"
| "isDrawRequest r = False"



section \<open>Notions used by the properties\<close>

text \<open>All six buffers exist, or none does.\<close>

definition allocated :: "pipeline \<Rightarrow> bool" where
  "allocated s =
     (hdrBuffer s \<noteq> None \<and> hdrBackBuffer s \<noteq> None \<and> reprojectBuffer s \<noteq> None \<and>
      reprojectBackBuffer s \<noteq> None \<and> gBuffer s \<noteq> None \<and> gBufferBack s \<noteq> None)"

definition unallocated :: "pipeline \<Rightarrow> bool" where
  "unallocated s =
     (hdrBuffer s = None \<and> hdrBackBuffer s = None \<and> reprojectBuffer s = None \<and>
      reprojectBackBuffer s = None \<and> gBuffer s = None \<and> gBufferBack s = None)"

definition uniform :: "pipeline \<Rightarrow> bool" where
  "uniform s = (allocated s \<or> unallocated s)"

text \<open>The calls made between a state and a later one.\<close>

definition issued :: "pipeline \<Rightarrow> pipeline \<Rightarrow> call list" where
  "issued s s' = drop (length (calls s)) (calls s')"


fun isReprojectDraw :: "call \<Rightarrow> bool" where
  "isReprojectDraw (Reproject_draw a) = True"
| "isReprojectDraw c = False"

fun isToneMapDraw :: "call \<Rightarrow> bool" where
  "isToneMapDraw (ToneMap_draw l sc p) = True"
| "isToneMapDraw c = False"

fun isSeedCall :: "call \<Rightarrow> bool" where
  "isSeedCall (RayTrace_setStrataCount n) = True"
| "isSeedCall RayTrace_nextSeed = True"
| "isSeedCall c = False"

fun isNotification :: "call \<Rightarrow> bool" where
  "isNotification (SampleRendered n d) = True"
| "isNotification c = False"

fun isElapsedQuery :: "call \<Rightarrow> bool" where
  "isElapsedQuery (TileRender_nextTile t) = True"
| "isElapsedQuery (PreviewSize_adjustSize t) = True"
| "isElapsedQuery c = False"

fun isTileReset :: "call \<Rightarrow> bool" where
  "isTileReset TileRender_reset = True"
| "isTileReset c = False"

text \<open>
  Two relations between a state and a later one, for steps that only draw. In both the
  clock, the sample count and the readiness flag are the same, and the calls added are
  neither a notification nor a query with the elapsed time. \<open>quiet\<close> lets the buffer pairs be
  swapped; \<open>frame\<close> keeps each buffer in its place, and also the first-frame flag, and
  adds no reset of the tile schedule.
\<close>

definition quiet :: "pipeline \<Rightarrow> pipeline \<Rightarrow> bool" where
  "quiet s s' =
     (ready s' = ready s \<and> frameTime s' = frameTime s \<and>
      elapsedFrameTime s' = elapsedFrameTime s \<and> sampleTime s' = sampleTime s \<and>
      sampleCount s' = sampleCount s \<and>
      allocated s' = allocated s \<and> unallocated s' = unallocated s \<and>
      prefix (calls s) (calls s') \<and>
      filter isNotification (calls s') = filter isNotification (calls s) \<and>
      filter isElapsedQuery (calls s') = filter isElapsedQuery (calls s))"

definition frame :: "pipeline \<Rightarrow> pipeline \<Rightarrow> bool" where
  "frame s s' =
     (ready s' = ready s \<and> frameTime s' = frameTime s \<and>
      elapsedFrameTime s' = elapsedFrameTime s \<and> sampleTime s' = sampleTime s \<and>
      sampleCount s' = sampleCount s \<and> firstFrame s' = firstFrame s \<and>
      hdrBuffer s' = hdrBuffer s \<and> hdrBackBuffer s' = hdrBackBuffer s \<and>
      reprojectBuffer s' = reprojectBuffer s \<and>
      reprojectBackBuffer s' = reprojectBackBuffer s \<and>
      gBuffer s' = gBuffer s \<and> gBufferBack s' = gBufferBack s \<and>
      prefix (calls s) (calls s') \<and>
      filter isNotification (calls s') = filter isNotification (calls s) \<and>
      filter isElapsedQuery (calls s') = filter isElapsedQuery (calls s) \<and>
      filter isTileReset (calls s') = filter isTileReset (calls s))"

text \<open>
  What the first lines of \<^verbatim>\<open>drawTile\<close> (310 to 320) add to the calls and do to the sample
  time: the query for the next tile and, on the first tile of a sweep with a sample
  count other than 0, the notification.
\<close>

definition tileBase :: "env \<Rightarrow> pipeline \<Rightarrow> pipeline" where
  "tileBase e s =
     (let s0 = emit [TileRender_nextTile (elapsedFrameTime s)] s in
      if isFirstTile (nextTile_result e) \<and> sampleCount s \<noteq> 0
      then (emit [SampleRendered (sampleCount s)
                    (or_NaN (coerce (frameTime s) - coerce (sampleTime s)))] s0)
             \<lparr>sampleTime := frameTime s\<rparr>
      else s0)"

text \<open>
  The noise-seed schedule in the words of the spec (section 4.5): one stratum at sample
  count 0, six strata (the spec's \<^verbatim>\<open>strataCount\<close>) at sample count 4 (its
  \<^verbatim>\<open>numUniformSamples\<close>), the next seed otherwise.
\<close>

definition seedSchedule :: "nat \<Rightarrow> call" where
  "seedSchedule n =
     (if n = 0 then RayTrace_setStrataCount 1
      else if n = 4 then RayTrace_setStrataCount 6
      else RayTrace_nextSeed)"



section \<open>Example inputs\<close>

definition exampleSize :: renderSize where
  "exampleSize = \<lparr>size_width = 800, size_height = 600, size_scale = (1, 1)\<rparr>"

text \<open>
  The surroundings of a call: whether a global \<^verbatim>\<open>gl\<close> is declared, and whether the tile
  the scheduler hands out is the first and the last of its sweep.
\<close>

definition exampleEnv :: "bool \<Rightarrow> bool \<Rightarrow> bool \<Rightarrow> env" where
  "exampleEnv g isFirst isLast =
     \<lparr>globalGl = g,
      nextTile_result =
        \<lparr>tile_x = 0, tile_y = 0, tileWidth = 400, tileHeight = 300,
         isFirstTile = isFirst, isLastTile = isLast\<rparr>,
      adjustSize_result = exampleSize, setSize_result = exampleSize,
      random_x = 1 / 4, random_y = 3 / 4,
      drawingBufferWidth = 800, drawingBufferHeight = 600\<rparr>"

definition cameraA :: camera where
  "cameraA = initialCamera\<lparr>fov := Num 60\<rparr>"

definition cameraB :: camera where
  "cameraB = initialCamera\<lparr>fov := Num 70\<rparr>"

text \<open>
  A pipeline whose noise texture has loaded and whose size has been set, on a page that
  declares a global \<^verbatim>\<open>gl\<close>.
\<close>

definition startedPipeline :: pipeline where
  "startedPipeline =
     stateOf (setSize 800 600 (exampleEnv True True True)
                (noiseLoaded (newRenderingPipeline exampleSize)))"

text \<open>The state \<open>startedPipeline\<close> reaches by its first \<^verbatim>\<open>draw\<close>, with camera \<open>cameraA\<close>.\<close>

definition runningPipeline :: pipeline where
  "runningPipeline =
     startedPipeline
       \<lparr>sampleCount := 0, firstFrame := False, lastCamera := cameraA,
        calls := calls startedPipeline @
          [RayTrace_setCamera cameraA, GBuffer_setCamera cameraA,
           Reproject_setPreviousCamera initialCamera, TileRender_reset]\<rparr>"

text \<open>
  A frame loop as the spec describes it: \<^verbatim>\<open>time\<close>, then \<^verbatim>\<open>draw\<close>, every frame, with a
  camera that does not move.
\<close>

definition frameLoop :: "bool \<Rightarrow> request list" where
  "frameLoop g =
     [NoiseLoaded, SetSize 800 600 (exampleEnv g True False),
      Time 1000, Draw (exampleEnv g True False) cameraA,
      Time 1016, Draw (exampleEnv g True False) cameraA]"


text \<open>A sweep of one tile completes, and then the camera moves.\<close>

definition sweepThenMove :: "request list" where
  "sweepThenMove =
     [NoiseLoaded, SetSize 800 600 (exampleEnv True True True),
      Time 1000, Draw (exampleEnv True True True) cameraA,
      Time 1016, Draw (exampleEnv True True True) cameraA,
      Time 1032, Draw (exampleEnv True True True) cameraB]"

text \<open>The canvas is resized while the camera stands still.\<close>

definition resizeWhileStatic :: "bool \<Rightarrow> request list" where
  "resizeWhileStatic g =
     [NoiseLoaded, SetSize 800 600 (exampleEnv g True False),
      Draw (exampleEnv g True False) cameraA,
      SetSize 1024 768 (exampleEnv g True False),
      Draw (exampleEnv g True False) cameraA]"

text \<open>
  A full frame with the constructor's camera, before any size is set, and then a first
  \<^verbatim>\<open>draw\<close> with another camera.
\<close>

definition fullThenFirstFrame :: "bool \<Rightarrow> request list" where
  "fullThenFirstFrame g =
     [NoiseLoaded, DrawFull (exampleEnv g True True) initialCamera,
      Draw (exampleEnv g True True) cameraA]"

section \<open>Auxiliary facts\<close>

lemmas step_defs = clearBuffer_def addSampleToBuffer_def newSampleToBuffer_def
  toneMapToScreen_def renderGBuffer_def renderTile_def setCameras_def updateSeed_def
  swapBuffers_def swapHdrBuffer_def swapGBuffer_def swapReprojectBuffer_def
  unbindFramebuffer_def

lemmas draw_defs = draw_def drawTile_def startSweep_def endSweep_def drawPreview_def
  previewFrame_def
  drawFull_def

lemmas setSize_defs = setSize_def initFrameBuffers_def makeFramebuffer_def

lemmas camera_defs = areCamerasEqual_def numberArraysEqual_def strict_eq_def cameraA_def
  cameraB_def initialCamera_def

lemmas constant_defs = maxReprojectedSamples_def numUniformSamples_def strataCount_def
  previewFramesBeforeBenchmark_def fullscreenScale_def

lemma emit_simps:
  "ready (emit cs s) = ready s"
  "frameTime (emit cs s) = frameTime s"
  "elapsedFrameTime (emit cs s) = elapsedFrameTime s"
  "sampleTime (emit cs s) = sampleTime s"
  "sampleCount (emit cs s) = sampleCount s"
  "numPreviewsRendered (emit cs s) = numPreviewsRendered s"
  "firstFrame (emit cs s) = firstFrame s"
  "lastCamera (emit cs s) = lastCamera s"
  "screenWidth (emit cs s) = screenWidth s"
  "screenHeight (emit cs s) = screenHeight s"
  "lastToneMappedScale (emit cs s) = lastToneMappedScale s"
  "hdrBuffer (emit cs s) = hdrBuffer s"
  "hdrBackBuffer (emit cs s) = hdrBackBuffer s"
  "reprojectBuffer (emit cs s) = reprojectBuffer s"
  "reprojectBackBuffer (emit cs s) = reprojectBackBuffer s"
  "gBuffer (emit cs s) = gBuffer s"
  "gBufferBack (emit cs s) = gBufferBack s"
  "lastToneMappedTexture (emit cs s) = lastToneMappedTexture s"
  "previewSize (emit cs s) = previewSize s"
  "framebuffersMade (emit cs s) = framebuffersMade s"
  "calls (emit cs s) = calls s @ cs"
  by (simp_all add: emit_def)

subsection \<open>Returning and throwing\<close>

lemma andThen_Returns: "andThen m f = Returns s' \<longleftrightarrow> (\<exists>s1. m = Returns s1 \<and> f s1 = Returns s')"
  by (cases m) auto

lemma andThen_Throws:
  "andThen m f = Throws x s' \<longleftrightarrow>
     m = Throws x s' \<or> (\<exists>s1. m = Returns s1 \<and> f s1 = Throws x s')"
  by (cases m) auto

lemma withBuffer_Some: "withBuffer (Some b) s k = k b"
  by (simp add: withBuffer_def)

lemma withBuffer_None: "withBuffer None s k = Throws TypeError s"
  by (simp add: withBuffer_def)

lemma withBuffer_Returns:
  "withBuffer buffer s k = Returns s' \<longleftrightarrow> (\<exists>b. buffer = Some b \<and> k b = Returns s')"
  by (cases buffer) (auto simp: withBuffer_def)

lemma bindFramebuffer_gl:
  "globalGl e \<Longrightarrow> bindFramebuffer e b s = Returns (emit [Framebuffer_bind b] s)"
  by (simp add: bindFramebuffer_def)

lemma bindFramebuffer_no_gl:
  "\<not> globalGl e \<Longrightarrow> bindFramebuffer e b s = Throws ReferenceError s"
  by (simp add: bindFramebuffer_def)

lemma bindFramebuffer_Returns:
  "bindFramebuffer e b s = Returns s' \<longleftrightarrow> globalGl e \<and> s' = emit [Framebuffer_bind b] s"
  by (auto simp: bindFramebuffer_def)


lemma not_returned_iff: "\<not> returned m \<longleftrightarrow> (\<exists>x s'. m = Throws x s')"
  by (cases m) auto

lemma stateOf_andThen_Returns: "m = Returns s1 \<Longrightarrow> stateOf (andThen m f) = stateOf (f s1)"
  by simp
subsection \<open>Steps that only log\<close>

lemma frame_refl: "frame s s"
  by (simp add: frame_def)

lemma frame_trans: "frame s s1 \<Longrightarrow> frame s1 s2 \<Longrightarrow> frame s s2"
  by (auto simp: frame_def intro: prefix_order.trans)

lemma frame_emit:
  assumes "frame s s1" "filter isNotification cs = []" "filter isElapsedQuery cs = []"
    "filter isTileReset cs = []"
  shows "frame s (emit cs s1)"
  using assms by (auto simp: frame_def emit_simps intro: prefix_order.trans)

lemma frame_unbind: "frame s s1 \<Longrightarrow> frame s (unbindFramebuffer b s1)"
  by (simp add: unbindFramebuffer_def frame_emit)

lemma frame_fields:
  "frame s s1 \<Longrightarrow> frame s (s1\<lparr>numPreviewsRendered := n\<rparr>)"
  "frame s s1 \<Longrightarrow> frame s (s1\<lparr>lastCamera := c\<rparr>)"
  "frame s s1 \<Longrightarrow> frame s (s1\<lparr>previewSize := ps\<rparr>)"
  "frame s s1 \<Longrightarrow> frame s (s1\<lparr>lastToneMappedTexture := t, lastToneMappedScale := sc\<rparr>)"
  by (simp_all add: frame_def)

lemma frame_count:
  "frame s s1 \<Longrightarrow> frame (s\<lparr>sampleCount := n\<rparr>) (s1\<lparr>sampleCount := n\<rparr>)"
  by (simp add: frame_def)

lemma frame_andThen:
  assumes "frame s (stateOf m)"
    and "\<And>s1. frame s s1 \<Longrightarrow> m = Returns s1 \<Longrightarrow> frame s (stateOf (f s1))"
  shows "frame s (stateOf (andThen m f))"
proof (cases m)
  case (Returns s1)
  with assms(1) have "frame s s1" by simp
  from assms(2) [OF this Returns] show ?thesis using Returns by simp
next
  case (Throws x s1)
  with assms(1) show ?thesis by simp
qed

lemma frame_withBuffer:
  assumes "frame s s1" "\<And>b. buffer = Some b \<Longrightarrow> frame s (stateOf (k b))"
  shows "frame s (stateOf (withBuffer buffer s1 k))"
  using assms by (cases buffer) (simp_all add: withBuffer_def)

lemma frame_Returns: "frame s s1 \<Longrightarrow> frame s (stateOf (Returns s1))"
  by simp

lemma frame_bindFramebuffer: "frame s s1 \<Longrightarrow> frame s (stateOf (bindFramebuffer e b s1))"
  by (simp add: bindFramebuffer_def frame_emit)

lemmas frame_rules = frame_andThen frame_withBuffer frame_Returns frame_bindFramebuffer
  frame_unbind frame_emit frame_fields

lemma frame_clearBuffer: "frame s s1 \<Longrightarrow> frame s (stateOf (clearBuffer e buffer s1))"
  unfolding clearBuffer_def by (intro frame_rules) simp_all

lemma frame_addSampleToBuffer:
  "frame s s1 \<Longrightarrow> frame s (stateOf (addSampleToBuffer e buffer w h s1))"
  unfolding addSampleToBuffer_def by (intro frame_rules) simp_all

lemma frame_newSampleToBuffer:
  "frame s s1 \<Longrightarrow> frame s (stateOf (newSampleToBuffer e buffer w h s1))"
  unfolding newSampleToBuffer_def by (intro frame_rules) simp_all

lemma frame_renderGBuffer: "frame s s1 \<Longrightarrow> frame s (stateOf (renderGBuffer e s1))"
  unfolding renderGBuffer_def by (intro frame_rules) simp_all

lemma frame_toneMapToScreen:
  "frame s s1 \<Longrightarrow> frame s (stateOf (toneMapToScreen l sc e s1))"
  unfolding toneMapToScreen_def Let_def by (intro frame_rules) simp_all

lemma frame_renderTile:
  "frame s s1 \<Longrightarrow> frame s (stateOf (renderTile e buffer x y w h s1))"
  unfolding renderTile_def Let_def
  by (intro frame_andThen frame_addSampleToBuffer frame_Returns frame_emit) simp_all

lemma frame_updateSeed: "frame s s1 \<Longrightarrow> frame s (updateSeed w h j e s1)"
  unfolding updateSeed_def Let_def
  by (auto intro!: frame_emit)

lemma frame_setCameras: "frame s s1 \<Longrightarrow> frame s (setCameras cam s1)"
  unfolding setCameras_def by (intro frame_rules) simp_all

lemmas frame_steps = frame_rules frame_clearBuffer frame_addSampleToBuffer
  frame_newSampleToBuffer frame_renderGBuffer frame_toneMapToScreen frame_renderTile
  frame_updateSeed frame_setCameras

lemma issued_filter:
  assumes "prefix (calls s) (calls s')" "filter P (calls s') = filter P (calls s) @ xs"
  shows "filter P (issued s s') = xs"
proof -
  from assms(1) obtain cs where cs: "calls s' = calls s @ cs" by (auto simp: prefix_def)
  then have "issued s s' = cs" by (simp add: issued_def)
  with assms(2) cs show ?thesis by simp
qed

subsection \<open>The parts of a tile, whatever the buffers and the surroundings\<close>

lemma startSweep_frame:
  "frame (if sampleCount s = 0 then s
          else (emit [SampleRendered (sampleCount s)
                        (or_NaN (coerce (frameTime s) - coerce (sampleTime s)))] s)
                 \<lparr>sampleTime := frameTime s\<rparr>)
     (stateOf (startSweep e s))"
proof (cases "sampleCount s = 0")
  case True
  then show ?thesis unfolding startSweep_def
    by (auto intro!: frame_steps frame_refl)
next
  case False
  let ?n = "(emit [SampleRendered (sampleCount s)
                      (or_NaN (coerce (frameTime s) - coerce (sampleTime s)))] s)
              \<lparr>sampleTime := frameTime s\<rparr>"
  have "frame ?n (stateOf (andThen (Returns ?n)
      (\<lambda>sa. andThen (renderGBuffer e (updateSeed (screenWidth sa) (screenHeight sa) True e sa))
          (\<lambda>sd. Returns (emit [RayTrace_bindTextures] sd)))))"
    by (auto intro!: frame_steps frame_refl)
  with False show ?thesis by (simp add: startSweep_def)
qed

lemma endSweep_frame:
  "frame (s\<lparr>sampleCount := sampleCount s + 1\<rparr>) (stateOf (endSweep e s))"
  unfolding endSweep_def Let_def
  by (auto intro!: frame_steps frame_refl)

lemma addSampleToBuffer_Returns:
  "addSampleToBuffer e buffer w h s = Returns s' \<Longrightarrow> globalGl e \<and> buffer \<noteq> None"
  by (auto simp: addSampleToBuffer_def withBuffer_Returns andThen_Returns bindFramebuffer_Returns)

lemma renderTile_Returns:
  "renderTile e buffer x y w h s = Returns s' \<Longrightarrow> globalGl e \<and> buffer \<noteq> None"
  by (auto simp: renderTile_def Let_def andThen_Returns dest: addSampleToBuffer_Returns)



subsection \<open>Steps that may swap the buffers\<close>

lemma swapBuffers_simps:
  "ready (swapBuffers s) = ready s"
  "frameTime (swapBuffers s) = frameTime s"
  "sampleTime (swapBuffers s) = sampleTime s"
  "sampleCount (swapBuffers s) = sampleCount s"
  "numPreviewsRendered (swapBuffers s) = numPreviewsRendered s"
  "elapsedFrameTime (swapBuffers s) = elapsedFrameTime s"
  "calls (swapBuffers s) = calls s"
  "previewSize (swapBuffers s) = previewSize s"
  "firstFrame (swapBuffers s) = firstFrame s"
  "lastCamera (swapBuffers s) = lastCamera s"
  by (simp_all add: swapBuffers_def swapHdrBuffer_def swapGBuffer_def swapReprojectBuffer_def)

lemma allocated_swapBuffers:
  "allocated (swapBuffers s) = allocated s"
  "unallocated (swapBuffers s) = unallocated s"
  by (auto simp: allocated_def unallocated_def swapBuffers_def swapHdrBuffer_def
      swapGBuffer_def swapReprojectBuffer_def)

lemma allocated_emit:
  "allocated (emit cs s) = allocated s"
  "unallocated (emit cs s) = unallocated s"
  by (simp_all add: allocated_def unallocated_def emit_simps)

lemma allocated_previewSize:
  "allocated (s\<lparr>previewSize := ps\<rparr>) = allocated s"
  "unallocated (s\<lparr>previewSize := ps\<rparr>) = unallocated s"
  by (simp_all add: allocated_def unallocated_def)

lemma quiet_refl: "quiet s s"
  by (simp add: quiet_def)

lemma quiet_trans: "quiet s s1 \<Longrightarrow> quiet s1 s2 \<Longrightarrow> quiet s s2"
  by (auto simp: quiet_def intro: prefix_order.trans)

lemma frame_quiet: "frame s s' \<Longrightarrow> quiet s s'"
  by (simp add: frame_def quiet_def allocated_def unallocated_def)

lemma quiet_frame: "quiet s s1 \<Longrightarrow> frame s1 s2 \<Longrightarrow> quiet s s2"
  by (blast intro: quiet_trans frame_quiet)

lemma quiet_swapBuffers: "quiet s s1 \<Longrightarrow> quiet s (swapBuffers s1)"
  by (simp add: quiet_def allocated_swapBuffers swapBuffers_simps)

lemma quiet_andThen:
  assumes "quiet s (stateOf m)"
    and "\<And>s1. quiet s s1 \<Longrightarrow> m = Returns s1 \<Longrightarrow> quiet s (stateOf (f s1))"
  shows "quiet s (stateOf (andThen m f))"
proof (cases m)
  case (Returns s1)
  with assms(1) have "quiet s s1" by simp
  from assms(2) [OF this Returns] show ?thesis using Returns by simp
next
  case (Throws x s1)
  with assms(1) show ?thesis by simp
qed

lemma quiet_withBuffer:
  assumes "quiet s s1" "\<And>b. buffer = Some b \<Longrightarrow> quiet s (stateOf (k b))"
  shows "quiet s (stateOf (withBuffer buffer s1 k))"
  using assms by (cases buffer) (simp_all add: withBuffer_def)

lemma quiet_Returns: "quiet s s1 \<Longrightarrow> quiet s (stateOf (Returns s1))"
  by simp

lemma quiet_emit:
  assumes "quiet s s1" "filter isNotification cs = []" "filter isElapsedQuery cs = []"
  shows "quiet s (emit cs s1)"
  using assms
  by (auto simp: quiet_def emit_simps allocated_emit intro: prefix_order.trans)

lemma quiet_unbind: "quiet s s1 \<Longrightarrow> quiet s (unbindFramebuffer b s1)"
  by (simp add: unbindFramebuffer_def quiet_emit)

lemma quiet_bindFramebuffer: "quiet s s1 \<Longrightarrow> quiet s (stateOf (bindFramebuffer e b s1))"
  by (simp add: bindFramebuffer_def quiet_emit)

lemma quiet_renderGBuffer: "quiet s s1 \<Longrightarrow> quiet s (stateOf (renderGBuffer e s1))"
  by (erule quiet_frame) (rule frame_renderGBuffer [OF frame_refl])

lemma quiet_newSampleToBuffer:
  "quiet s s1 \<Longrightarrow> quiet s (stateOf (newSampleToBuffer e buffer w h s1))"
  by (erule quiet_frame) (rule frame_newSampleToBuffer [OF frame_refl])

lemma quiet_toneMapToScreen:
  "quiet s s1 \<Longrightarrow> quiet s (stateOf (toneMapToScreen l sc e s1))"
  by (erule quiet_frame) (rule frame_toneMapToScreen [OF frame_refl])

lemma quiet_updateSeed: "quiet s s1 \<Longrightarrow> quiet s (updateSeed w h j e s1)"
  by (erule quiet_frame) (rule frame_updateSeed [OF frame_refl])

lemma quiet_setCameras: "quiet s s1 \<Longrightarrow> quiet s (setCameras cam s1)"
  by (erule quiet_frame) (rule frame_setCameras [OF frame_refl])

lemma quiet_previewSize: "quiet s s1 \<Longrightarrow> quiet s (s1\<lparr>previewSize := ps\<rparr>)"
  by (simp add: quiet_def allocated_def unallocated_def)

lemma quiet_numPreviews: "quiet s s1 \<Longrightarrow> quiet s (s1\<lparr>numPreviewsRendered := n\<rparr>)"
  by (simp add: quiet_def allocated_def unallocated_def)

lemmas quiet_steps = quiet_andThen quiet_withBuffer quiet_Returns quiet_bindFramebuffer
  quiet_unbind quiet_emit quiet_swapBuffers quiet_renderGBuffer quiet_newSampleToBuffer
  quiet_toneMapToScreen quiet_updateSeed quiet_previewSize


text \<open>The preview path, whatever the buffers and the surroundings.\<close>

lemma previewFrame_quiet: "quiet s s3 \<Longrightarrow> quiet s (stateOf (previewFrame e w h s3))"
  unfolding previewFrame_def Let_def
  by (intro quiet_steps) simp_all

lemma drawPreview_quiet:
  "quiet (if previewFramesBeforeBenchmark \<le> numPreviewsRendered s
          then emit [PreviewSize_adjustSize (elapsedFrameTime s)] s else s)
     (stateOf (drawPreview e s))"
proof -
  let ?base = "if previewFramesBeforeBenchmark \<le> numPreviewsRendered s
          then emit [PreviewSize_adjustSize (elapsedFrameTime s)] s else s"
  let ?s1 = "if 0 < sampleCount s then swapBuffers s else s"
  let ?s2 = "if previewFramesBeforeBenchmark \<le> numPreviewsRendered ?s1
                then (emit [PreviewSize_adjustSize (elapsedFrameTime ?s1)] ?s1)
                       \<lparr>previewSize := adjustSize_result e\<rparr>
                else ?s1"
  have "quiet ?base ?s2"
    by (simp add: quiet_def emit_simps allocated_emit swapBuffers_simps
        allocated_swapBuffers allocated_previewSize)
  then show ?thesis
    unfolding drawPreview_def Let_def
    by (intro previewFrame_quiet quiet_updateSeed)
qed

subsection \<open>The methods, whatever the buffers and the surroundings\<close>

lemma frame_allocated:
  assumes "frame s s'"
  shows "allocated s' = allocated s" "unallocated s' = unallocated s" "uniform s' = uniform s"
  using assms by (simp_all add: frame_def allocated_def unallocated_def uniform_def)

lemma quiet_allocated:
  assumes "quiet s s'"
  shows "allocated s' = allocated s" "unallocated s' = unallocated s" "uniform s' = uniform s"
  using assms by (simp_all add: quiet_def uniform_def)

lemma allocated_sampleCount:
  "allocated (s\<lparr>sampleCount := n\<rparr>) = allocated s"
  "unallocated (s\<lparr>sampleCount := n\<rparr>) = unallocated s"
  by (simp_all add: allocated_def unallocated_def)

lemma frame_count2:
  assumes "frame s s1" "m = sampleCount s1 + 1"
  shows "frame (s\<lparr>sampleCount := sampleCount s + 1\<rparr>) (s1\<lparr>sampleCount := m\<rparr>)"
  using assms by (simp add: frame_def)

lemma tileBase_simps:
  "ready (tileBase e s) = ready s"
  "frameTime (tileBase e s) = frameTime s"
  "elapsedFrameTime (tileBase e s) = elapsedFrameTime s"
  "sampleCount (tileBase e s) = sampleCount s"
  "firstFrame (tileBase e s) = firstFrame s"
  "hdrBuffer (tileBase e s) = hdrBuffer s"
  "hdrBackBuffer (tileBase e s) = hdrBackBuffer s"
  "reprojectBuffer (tileBase e s) = reprojectBuffer s"
  "reprojectBackBuffer (tileBase e s) = reprojectBackBuffer s"
  "gBuffer (tileBase e s) = gBuffer s"
  "gBufferBack (tileBase e s) = gBufferBack s"
  "allocated (tileBase e s) = allocated s"
  "unallocated (tileBase e s) = unallocated s"
  by (simp_all add: tileBase_def Let_def emit_simps allocated_def unallocated_def)

lemma drawTile_frame:
  "frame (tileBase e s) (stateOf (drawTile e s)) \<or>
   (isLastTile (nextTile_result e) \<and> globalGl e \<and> hdrBuffer s \<noteq> None \<and>
    frame ((tileBase e s)\<lparr>sampleCount := sampleCount s + 1\<rparr>) (stateOf (drawTile e s)))"
proof -
  let ?t = "nextTile_result e"
  let ?s0 = "emit [TileRender_nextTile (elapsedFrameTime s)] s"
  let ?A = "if isFirstTile ?t then startSweep e ?s0 else Returns ?s0"
  let ?B = "\<lambda>s1. renderTile e (hdrBuffer s1) (tile_x ?t) (tile_y ?t) (tileWidth ?t) (tileHeight ?t) s1"
  let ?C = "\<lambda>s2. if isLastTile ?t then endSweep e s2 else Returns s2"
  have dt: "drawTile e s = andThen ?A (\<lambda>s1. andThen (?B s1) ?C)"
    by (simp add: drawTile_def Let_def)
  have A: "frame (tileBase e s) (stateOf ?A)"
    using startSweep_frame [of ?s0 e]
    by (auto simp: tileBase_def Let_def emit_simps frame_refl split: if_splits)
  show ?thesis
  proof (cases ?A)
    case (Throws x s1)
    with A dt show ?thesis by simp
  next
    case (Returns s1)
    with A have s1: "frame (tileBase e s) s1" by simp
    have B: "frame (tileBase e s) (stateOf (?B s1))"
      by (rule frame_renderTile [OF s1])
    show ?thesis
    proof (cases "?B s1")
      case (Throws x s2)
      with B dt Returns show ?thesis by simp
    next
      case R2: (Returns s2)
      with B have s2: "frame (tileBase e s) s2" by simp
      from R2 have gl: "globalGl e" "hdrBuffer s1 \<noteq> None"
        using renderTile_Returns by blast+
      from s1 gl(2) have hdr: "hdrBuffer s \<noteq> None"
        by (simp add: frame_def tileBase_simps)
      show ?thesis
      proof (cases "isLastTile ?t")
        case False
        with s2 dt Returns R2 show ?thesis by simp
      next
        case True
        have "frame (s2\<lparr>sampleCount := sampleCount s2 + 1\<rparr>) (stateOf (endSweep e s2))"
          by (rule endSweep_frame)
        moreover have "frame ((tileBase e s)\<lparr>sampleCount := sampleCount s + 1\<rparr>)
            (s2\<lparr>sampleCount := sampleCount s2 + 1\<rparr>)"
          using frame_count2 [OF s2 refl] by (simp add: tileBase_simps)
        ultimately have "frame ((tileBase e s)\<lparr>sampleCount := sampleCount s + 1\<rparr>)
            (stateOf (endSweep e s2))"
          by (blast intro: frame_trans)
        with True gl(1) hdr dt Returns R2 show ?thesis by simp
      qed
    qed
  qed
qed

lemma draw_unchanged: 
  assumes "ready s" "areCamerasEqual cam (lastCamera s)"
  shows "draw e cam s = andThen (drawTile e s) (\<lambda>s1. Returns (s1\<lparr>numPreviewsRendered := 0\<rparr>))"
  using assms by (simp add: draw_def)

lemma draw_unchanged_frame:
  assumes "ready s" "areCamerasEqual cam (lastCamera s)"
  shows "frame (tileBase e s) (stateOf (draw e cam s)) \<or>
   (isLastTile (nextTile_result e) \<and> globalGl e \<and> hdrBuffer s \<noteq> None \<and>
    frame ((tileBase e s)\<lparr>sampleCount := sampleCount s + 1\<rparr>) (stateOf (draw e cam s)))"
proof (cases "drawTile e s")
  case (Throws x s1)
  with drawTile_frame [of e s] show ?thesis
    by (simp add: draw_unchanged [OF assms])
next
  case (Returns s1)
  with drawTile_frame [of e s] show ?thesis
    by (auto simp: draw_unchanged [OF assms] intro: frame_fields)
qed



text \<open>A changed camera.\<close>

lemma setCameras_simps:
  "ready (setCameras cam s) = ready s"
  "sampleCount (setCameras cam s) = sampleCount s"
  "numPreviewsRendered (setCameras cam s) = numPreviewsRendered s"
  "elapsedFrameTime (setCameras cam s) = elapsedFrameTime s"
  "frameTime (setCameras cam s) = frameTime s"
  "sampleTime (setCameras cam s) = sampleTime s"
  "firstFrame (setCameras cam s) = firstFrame s"
  "lastCamera (setCameras cam s) = cam"
  "allocated (setCameras cam s) = allocated s"
  "unallocated (setCameras cam s) = unallocated s"
  "calls (setCameras cam s) = calls s @ [RayTrace_setCamera cam, GBuffer_setCamera cam,
            Reproject_setPreviousCamera (lastCamera s)]"
  by (simp_all add: setCameras_def emit_simps allocated_def unallocated_def)

lemma draw_first_frame:
  assumes "ready s" "\<not> areCamerasEqual cam (lastCamera s)" "firstFrame s"
  shows "draw e cam s =
     Returns ((emit [RayTrace_setCamera cam, GBuffer_setCamera cam,
                     Reproject_setPreviousCamera (lastCamera s), TileRender_reset] s)
               \<lparr>lastCamera := cam, firstFrame := False, sampleCount := 0\<rparr>)"
  using assms by (simp add: draw_def Let_def setCameras_def emit_def)

lemma draw_preview:
  assumes "ready s" "\<not> areCamerasEqual cam (lastCamera s)" "\<not> firstFrame s"
  shows "draw e cam s =
     andThen (drawPreview e (setCameras cam s))
       (\<lambda>sp. Returns ((emit [TileRender_reset] (sp\<lparr>numPreviewsRendered := numPreviewsRendered sp + 1\<rparr>))
                         \<lparr>sampleCount := 0\<rparr>))"
proof (cases "drawPreview e (setCameras cam s)")
  case (Returns sp)
  with assms show ?thesis by (simp add: draw_def Let_def setCameras_simps)
next
  case (Throws x sp)
  with assms show ?thesis by (simp add: draw_def Let_def setCameras_simps)
qed

lemma quiet_reset:
  assumes "quiet s s1"
  shows "quiet (s\<lparr>sampleCount := 0\<rparr>)
           ((emit [TileRender_reset] (s1\<lparr>numPreviewsRendered := n\<rparr>))\<lparr>sampleCount := 0\<rparr>)"
  using assms by (simp add: quiet_def emit_simps allocated_def unallocated_def)

text \<open>
  What a \<^verbatim>\<open>draw\<close> with a changed camera leaves of the state it started from, whether it
  returns or throws.
\<close>

lemma draw_changed_quiet:
  assumes "ready s" "\<not> areCamerasEqual cam (lastCamera s)"
  shows "quiet
     ((if \<not> firstFrame s \<and> previewFramesBeforeBenchmark \<le> numPreviewsRendered s
       then emit [PreviewSize_adjustSize (elapsedFrameTime s)] (setCameras cam s)
       else setCameras cam s)
        \<lparr>sampleCount := if returned (draw e cam s) then 0 else sampleCount s\<rparr>)
     (stateOf (draw e cam s))"
proof (cases "firstFrame s")
  case True
  then show ?thesis
    by (simp add: draw_first_frame [OF assms True] quiet_def emit_simps allocated_def
        unallocated_def setCameras_def)
next
  case False
  let ?s1 = "setCameras cam s"
  let ?b = "if previewFramesBeforeBenchmark \<le> numPreviewsRendered s
       then emit [PreviewSize_adjustSize (elapsedFrameTime s)] ?s1 else ?s1"
  from drawPreview_quiet [of ?s1 e] have q: "quiet ?b (stateOf (drawPreview e ?s1))"
    by (simp add: setCameras_simps split: if_splits)
  show ?thesis
  proof (cases "drawPreview e ?s1")
    case (Returns sp)
    with q have "quiet ?b sp" by simp
    from quiet_reset [OF this] Returns False show ?thesis
      by (simp add: draw_preview [OF assms False])
  next
    case (Throws x sp)
    with q have "quiet ?b sp" by simp
    moreover have "?b\<lparr>sampleCount := sampleCount s\<rparr> = ?b"
      by (simp add: emit_def setCameras_def)
    ultimately show ?thesis using Throws False
      by (simp add: draw_preview [OF assms False])
  qed
qed

text \<open>A full frame.\<close>

lemma swapFull_simps:
  "ready (swapReprojectBuffer (swapGBuffer s)) = ready s"
  "lastCamera (swapReprojectBuffer (swapGBuffer s)) = lastCamera s"
  "sampleCount (swapReprojectBuffer (swapGBuffer s)) = sampleCount s"
  "calls (swapReprojectBuffer (swapGBuffer s)) = calls s"
  "hdrBuffer (swapReprojectBuffer (swapGBuffer s)) = hdrBuffer s"
  "hdrBackBuffer (swapReprojectBuffer (swapGBuffer s)) = hdrBackBuffer s"
  "gBuffer (swapReprojectBuffer (swapGBuffer s)) = gBufferBack s"
  "gBufferBack (swapReprojectBuffer (swapGBuffer s)) = gBuffer s"
  "reprojectBuffer (swapReprojectBuffer (swapGBuffer s)) = reprojectBackBuffer s"
  "reprojectBackBuffer (swapReprojectBuffer (swapGBuffer s)) = reprojectBuffer s"
  "frameTime (swapReprojectBuffer (swapGBuffer s)) = frameTime s"
  "elapsedFrameTime (swapReprojectBuffer (swapGBuffer s)) = elapsedFrameTime s"
  "sampleTime (swapReprojectBuffer (swapGBuffer s)) = sampleTime s"
  "firstFrame (swapReprojectBuffer (swapGBuffer s)) = firstFrame s"
  by (simp_all add: swapGBuffer_def swapReprojectBuffer_def)

lemma allocated_swapFull:
  "allocated (swapReprojectBuffer (swapGBuffer s)) = allocated s"
  "unallocated (swapReprojectBuffer (swapGBuffer s)) = unallocated s"
  by (auto simp: allocated_def unallocated_def swapFull_simps)

lemma drawFull_frame:
  assumes "ready s"
  shows "frame ((swapReprojectBuffer (swapGBuffer s))
                  \<lparr>sampleCount := if areCamerasEqual cam (lastCamera s)
                                   then sampleCount s + 1 else 0\<rparr>)
           (stateOf (drawFull e cam s))"
proof -
  let ?s1 = "swapReprojectBuffer (swapGBuffer s)"
  let ?base = "?s1\<lparr>sampleCount := if areCamerasEqual cam (lastCamera s)
                                   then sampleCount s + 1 else 0\<rparr>"
  let ?m = "if \<not> areCamerasEqual cam (lastCamera ?s1)
            then clearBuffer e (hdrBuffer ?s1) (?s1\<lparr>sampleCount := 0\<rparr>)
            else Returns (?s1\<lparr>sampleCount := sampleCount ?s1 + 1\<rparr>)"
  have m: "frame ?base (stateOf ?m)"
  proof (cases "areCamerasEqual cam (lastCamera s)")
    case True
    then show ?thesis by (simp add: swapFull_simps frame_refl)
  next
    case False
    then show ?thesis
      using frame_clearBuffer [OF frame_refl, of "?s1\<lparr>sampleCount := 0\<rparr>" e "hdrBuffer ?s1"]
      by (simp add: swapFull_simps)
  qed
  show ?thesis
    using assms unfolding drawFull_def Let_def
    apply (simp only: simp_thms if_False)
    apply (rule frame_andThen)
     apply (rule m)
    apply (intro frame_steps)
                        apply simp_all
    done
qed

text \<open>A new size.\<close>

lemma setSize_gl:
  assumes "globalGl e"
  shows "\<exists>s'. setSize w h e s = Returns s' \<and> firstFrame s' \<and> allocated s' \<and>
           hdrBuffer s' = Some (Framebuffer (framebuffersMade s)) \<and>
           hdrBackBuffer s' = Some (Framebuffer (framebuffersMade s + 1)) \<and>
           reprojectBuffer s' = Some (Framebuffer (framebuffersMade s + 2)) \<and>
           reprojectBackBuffer s' = Some (Framebuffer (framebuffersMade s + 3)) \<and>
           gBuffer s' = Some (Framebuffer (framebuffersMade s + 4)) \<and>
           gBufferBack s' = Some (Framebuffer (framebuffersMade s + 5)) \<and>
           framebuffersMade s' = framebuffersMade s + 6 \<and>
           screenWidth s' = w \<and> screenHeight s' = h"
  using assms
  by (simp add: setSize_defs bindFramebuffer_def unbindFramebuffer_def emit_def Let_def
      allocated_def)

lemma setSize_no_gl:
  assumes "\<not> globalGl e"
  shows "\<exists>s'. setSize w h e s = Throws ReferenceError s' \<and> firstFrame s' = firstFrame s \<and>
           hdrBuffer s' = hdrBuffer s \<and> hdrBackBuffer s' = hdrBackBuffer s \<and>
           reprojectBuffer s' = reprojectBuffer s \<and>
           reprojectBackBuffer s' = reprojectBackBuffer s \<and>
           gBuffer s' = gBuffer s \<and> gBufferBack s' = gBufferBack s \<and>
           screenWidth s' = w \<and> screenHeight s' = h \<and>
           calls s' = calls s @ [TileRender_setSize w h, PreviewSize_setSize w h,
                                 GL_createFramebuffer]"
  using assms
  by (simp add: setSize_defs bindFramebuffer_def unbindFramebuffer_def emit_def Let_def)

lemma setSize_keeps:
  "ready (stateOf (setSize w h e s)) = ready s"
  "sampleCount (stateOf (setSize w h e s)) = sampleCount s"
  "frameTime (stateOf (setSize w h e s)) = frameTime s"
  "elapsedFrameTime (stateOf (setSize w h e s)) = elapsedFrameTime s"
  "sampleTime (stateOf (setSize w h e s)) = sampleTime s"
  "lastCamera (stateOf (setSize w h e s)) = lastCamera s"
  "numPreviewsRendered (stateOf (setSize w h e s)) = numPreviewsRendered s"
  by (cases "globalGl e";
      simp add: setSize_defs bindFramebuffer_def unbindFramebuffer_def emit_def Let_def)+

lemma setSize_Returns:
  assumes "setSize w h e s = Returns s'"
  shows "globalGl e"
  using assms setSize_no_gl [of e w h s] by (cases "globalGl e") auto

lemma setSize_uniform: "uniform s \<Longrightarrow> uniform (stateOf (setSize w h e s))"
proof (cases "globalGl e")
  case True
  from setSize_gl [OF True, of w h s] show ?thesis by (auto simp: uniform_def)
next
  case False
  assume "uniform s"
  with setSize_no_gl [OF False, of w h s] show ?thesis
    by (auto simp: uniform_def allocated_def unallocated_def)
qed







lemma drawFull_returns:
  assumes "globalGl e" "allocated s"
  shows "returned (drawFull e cam s)"
proof -
  from assms(2) obtain hd hb r rb g gb where "hdrBuffer s = Some hd" "hdrBackBuffer s = Some hb"
    "reprojectBuffer s = Some r" "reprojectBackBuffer s = Some rb"
    "gBuffer s = Some g" "gBufferBack s = Some gb"
    unfolding allocated_def by auto
  then show ?thesis using assms(1)
    by (simp add: drawFull_def clearBuffer_def renderGBuffer_def addSampleToBuffer_def
        toneMapToScreen_def setCameras_def updateSeed_def swapGBuffer_def swapReprojectBuffer_def
        Let_def withBuffer_Some bindFramebuffer_gl emit_simps unbindFramebuffer_def)
qed

subsection \<open>Requests\<close>

lemma draw_not_ready: "\<not> ready s \<Longrightarrow> draw e cam s = Returns s"
  by (simp add: draw_def)

lemma drawFull_not_ready: "\<not> ready s \<Longrightarrow> drawFull e cam s = Returns s"
  by (simp add: drawFull_def)

lemma allocated_time:
  "allocated (time t s) = allocated s" "unallocated (time t s) = unallocated s"
  "allocated (noiseLoaded s) = allocated s" "unallocated (noiseLoaded s) = unallocated s"
  by (simp_all add: allocated_def unallocated_def time_def noiseLoaded_def emit_simps)

lemma draw_allocated:
  "allocated (stateOf (draw e cam s)) = allocated s"
  "unallocated (stateOf (draw e cam s)) = unallocated s"
proof -
  have "allocated (stateOf (draw e cam s)) = allocated s \<and>
        unallocated (stateOf (draw e cam s)) = unallocated s"
  proof (cases "ready s")
    case False
    then show ?thesis by (simp add: draw_not_ready)
  next
    case True
    show ?thesis
    proof (cases "areCamerasEqual cam (lastCamera s)")
      case same: True
      from draw_unchanged_frame [OF True same, of e] show ?thesis
        by (auto simp: frame_allocated allocated_sampleCount tileBase_simps)
    next
      case False
      from quiet_allocated [OF draw_changed_quiet [OF True False, of e]] show ?thesis
        by (simp add: allocated_sampleCount allocated_emit setCameras_simps split: if_splits)
    qed
  qed
  then show "allocated (stateOf (draw e cam s)) = allocated s"
    "unallocated (stateOf (draw e cam s)) = unallocated s" by simp_all
qed

lemma drawFull_allocated:
  "allocated (stateOf (drawFull e cam s)) = allocated s"
  "unallocated (stateOf (drawFull e cam s)) = unallocated s"
proof -
  have "allocated (stateOf (drawFull e cam s)) = allocated s \<and>
        unallocated (stateOf (drawFull e cam s)) = unallocated s"
  proof (cases "ready s")
    case False
    then show ?thesis by (simp add: drawFull_not_ready)
  next
    case True
    from frame_allocated [OF drawFull_frame [OF True, of cam e]] show ?thesis
      by (simp add: allocated_sampleCount allocated_swapFull)
  qed
  then show "allocated (stateOf (drawFull e cam s)) = allocated s"
    "unallocated (stateOf (drawFull e cam s)) = unallocated s" by simp_all
qed

lemma perform_uniform: "uniform s \<Longrightarrow> uniform (stateOf (perform r s))"
  by (cases r)
     (simp_all add: setSize_uniform, simp_all add: uniform_def draw_allocated drawFull_allocated
        allocated_time)

lemma runCaught_uniform: "uniform s \<Longrightarrow> uniform (runCaught rs s)"
  by (induction rs arbitrary: s) (simp_all add: perform_uniform)








subsection \<open>The example inputs\<close>

lemmas eval_defs = draw_defs step_defs setSize_defs camera_defs constant_defs
  exampleEnv_def exampleSize_def time_def noiseLoaded_def newRenderingPipeline_def
  bindFramebuffer_def withBuffer_def emit_def Let_def blendAmountFor_def clamp_def
  coerce_def or_NaN_def js_div_def

lemma startedPipeline_reached:
  "run [NoiseLoaded, SetSize 800 600 (exampleEnv True True True)]
     (newRenderingPipeline exampleSize) = Returns startedPipeline"
  by (simp add: startedPipeline_def eval_defs)

lemma startedPipeline_facts:
  "ready startedPipeline" "firstFrame startedPipeline" "allocated startedPipeline"
  "uniform startedPipeline"
  "lastCamera startedPipeline = initialCamera" "sampleCount startedPipeline = 0"
  "hdrBuffer startedPipeline = Some (Framebuffer 0)"
  "hdrBackBuffer startedPipeline = Some (Framebuffer 1)"
  "reprojectBuffer startedPipeline = Some (Framebuffer 2)"
  "reprojectBackBuffer startedPipeline = Some (Framebuffer 3)"
  "gBuffer startedPipeline = Some (Framebuffer 4)"
  "gBufferBack startedPipeline = Some (Framebuffer 5)"
  "frameTime startedPipeline = None" "sampleTime startedPipeline = None"
  "screenWidth startedPipeline = 800" "screenHeight startedPipeline = 600"
  "numPreviewsRendered startedPipeline = 0"
  by (simp_all add: startedPipeline_def allocated_def uniform_def eval_defs)

lemma runningPipeline_reached:
  "draw (exampleEnv g f l) cameraA startedPipeline = Returns runningPipeline"
  by (simp add: draw_first_frame startedPipeline_facts camera_defs runningPipeline_def emit_def)




section \<open>The sample count\<close>



section \<open>Camera equality\<close>

text \<open>
  C2, as amended. \<^verbatim>\<open>areCamerasEqual(A, B)\<close> is true iff the two world matrices hold the
  same numbers at the same places and the two aspect values and the two fov values are
  \<^verbatim>\<open>===\<close>; giving one of these scalars of a camera another value makes the comparison
  with the original false; and a camera equals itself exactly when neither its aspect
  nor its fov is \<^verbatim>\<open>NaN\<close>.
\<close>

theorem areCamerasEqual_characterisation:
  "(areCamerasEqual A B \<longleftrightarrow>
      matrixWorld A = matrixWorld B \<and>
      strict_eq (aspect A) (aspect B) \<and> strict_eq (fov A) (fov B)) \<and>
   (areCamerasEqual A A \<longleftrightarrow> aspect A \<noteq> NaN \<and> fov A \<noteq> NaN) \<and>
   (fov A \<noteq> v \<longrightarrow> \<not> areCamerasEqual A (A\<lparr>fov := v\<rparr>)) \<and>
   (aspect A \<noteq> v \<longrightarrow> \<not> areCamerasEqual A (A\<lparr>aspect := v\<rparr>)) \<and>
   (i < length (matrixWorld A) \<and> matrixWorld A ! i \<noteq> v \<longrightarrow>
      \<not> areCamerasEqual A (A\<lparr>matrixWorld := (matrixWorld A)[i := v]\<rparr>))"
proof (intro conjI)
  show "areCamerasEqual A B \<longleftrightarrow>
      matrixWorld A = matrixWorld B \<and>
      strict_eq (aspect A) (aspect B) \<and> strict_eq (fov A) (fov B)"
    by (simp add: areCamerasEqual_def numberArraysEqual_def)
  show "areCamerasEqual A A \<longleftrightarrow> aspect A \<noteq> NaN \<and> fov A \<noteq> NaN"
    by (simp add: areCamerasEqual_def numberArraysEqual_def strict_eq_def)
  show "fov A \<noteq> v \<longrightarrow> \<not> areCamerasEqual A (A\<lparr>fov := v\<rparr>)"
    by (simp add: areCamerasEqual_def strict_eq_def)
  show "aspect A \<noteq> v \<longrightarrow> \<not> areCamerasEqual A (A\<lparr>aspect := v\<rparr>)"
    by (simp add: areCamerasEqual_def strict_eq_def)
  show "i < length (matrixWorld A) \<and> matrixWorld A ! i \<noteq> v \<longrightarrow>
      \<not> areCamerasEqual A (A\<lparr>matrixWorld := (matrixWorld A)[i := v]\<rparr>)"
  proof
    assume a: "i < length (matrixWorld A) \<and> matrixWorld A ! i \<noteq> v"
    then have "(matrixWorld A)[i := v] ! i = v" by simp
    with a have "matrixWorld A \<noteq> (matrixWorld A)[i := v]" by metis
    then show "\<not> areCamerasEqual A (A\<lparr>matrixWorld := (matrixWorld A)[i := v]\<rparr>)"
      by (simp add: areCamerasEqual_def numberArraysEqual_def)
  qed
qed

text \<open>The characterisation at the initial camera, with one scalar changed at a time.\<close>

theorem areCamerasEqual_characterisation_witness:
  "areCamerasEqual initialCamera initialCamera \<and>
   \<not> areCamerasEqual initialCamera (initialCamera\<lparr>fov := Num 60\<rparr>) \<and>
   \<not> areCamerasEqual initialCamera (initialCamera\<lparr>aspect := Num 2\<rparr>) \<and>
   \<not> areCamerasEqual initialCamera
       (initialCamera\<lparr>matrixWorld := (matrixWorld initialCamera)[12 := Num 5]\<rparr>)"
  using areCamerasEqual_characterisation [of initialCamera initialCamera "Num 60" 12]
    areCamerasEqual_characterisation [of initialCamera initialCamera "Num 2" 12]
    areCamerasEqual_characterisation [of initialCamera initialCamera "Num 5" 12]
  by (simp add: initialCamera_def)

text \<open>
  C2 as stated fails: a camera whose aspect ratio is \<^verbatim>\<open>NaN\<close> (a canvas of width and
  height 0) is not equal to itself.
\<close>

theorem areCamerasEqual_not_reflexive:
  "\<not> areCamerasEqual (initialCamera\<lparr>aspect := NaN\<rparr>) (initialCamera\<lparr>aspect := NaN\<rparr>)"
  by (simp add: areCamerasEqual_def strict_eq_def)

section \<open>Before the noise texture has loaded\<close>

lemma perform_not_ready:
  assumes "\<not> ready s" "r \<noteq> NoiseLoaded"
  shows "\<not> ready (stateOf (perform r s))"
  using assms by (cases r) (simp_all add: draw_not_ready drawFull_not_ready time_def setSize_keeps)

lemma run_not_ready:
  assumes "\<not> ready s" "NoiseLoaded \<notin> set rs"
  shows "run rs s = run (filter (\<lambda>r. \<not> isDrawRequest r) rs) s"
  using assms
proof (induction rs arbitrary: s)
  case Nil
  then show ?case by simp
next
  case (Cons r rs)
  from Cons.prems have r: "r \<noteq> NoiseLoaded" and rs: "NoiseLoaded \<notin> set rs" by auto
  show ?case
  proof (cases "isDrawRequest r")
    case True
    then have "perform r s = Returns s"
      using Cons.prems(1) by (cases r) (simp_all add: draw_not_ready drawFull_not_ready)
    with True Cons.IH [OF Cons.prems(1) rs] show ?thesis by simp
  next
    case False
    show ?thesis
    proof (cases "perform r s")
      case (Returns s1)
      with perform_not_ready [OF Cons.prems(1) r] have "\<not> ready s1" by simp
      from Cons.IH [OF this rs] False Returns show ?thesis by simp
    next
      case (Throws x s1)
      with False show ?thesis by simp
    qed
  qed
qed

lemma runCaught_not_ready:
  assumes "\<not> ready s" "NoiseLoaded \<notin> set rs"
  shows "runCaught rs s = runCaught (filter (\<lambda>r. \<not> isDrawRequest r) rs) s"
  using assms
proof (induction rs arbitrary: s)
  case Nil
  then show ?case by simp
next
  case (Cons r rs)
  from Cons.prems have r: "r \<noteq> NoiseLoaded" and rs: "NoiseLoaded \<notin> set rs" by auto
  show ?case
  proof (cases "isDrawRequest r")
    case True
    then have "perform r s = Returns s"
      using Cons.prems(1) by (cases r) (simp_all add: draw_not_ready drawFull_not_ready)
    with True Cons.IH [OF Cons.prems(1) rs] show ?thesis by simp
  next
    case False
    from Cons.IH [OF perform_not_ready [OF Cons.prems(1) r] rs] False show ?thesis by simp
  qed
qed

text \<open>
  C7. While the readiness flag is not set, \<^verbatim>\<open>draw\<close> and \<^verbatim>\<open>drawFull\<close> return at once and
  leave the whole state as it is, the log of calls included; so does every sequence of
  such calls, and in any sequence of requests in which the load does not complete the
  draw requests can be left out without changing the outcome, whether an exception of
  another request ends the sequence or is caught.
\<close>

theorem not_ready_draw_is_noop:
  assumes "\<not> ready s"
  shows "draw e cam s = Returns s \<and> drawFull e cam s = Returns s \<and>
    (list_all isDrawRequest rs \<longrightarrow> run rs s = Returns s \<and> runCaught rs s = s) \<and>
    (NoiseLoaded \<notin> set rs \<longrightarrow>
       run rs s = run (filter (\<lambda>r. \<not> isDrawRequest r) rs) s \<and>
       runCaught rs s = runCaught (filter (\<lambda>r. \<not> isDrawRequest r) rs) s \<and>
       \<not> ready (runCaught rs s))"
proof (intro conjI impI)
  show "draw e cam s = Returns s" using assms by (simp add: draw_def)
  show "drawFull e cam s = Returns s" using assms by (simp add: drawFull_def)
  show "run rs s = run (filter (\<lambda>r. \<not> isDrawRequest r) rs) s" if "NoiseLoaded \<notin> set rs"
    using assms that by (rule run_not_ready)
  show "runCaught rs s = runCaught (filter (\<lambda>r. \<not> isDrawRequest r) rs) s"
    if "NoiseLoaded \<notin> set rs"
    using assms that by (rule runCaught_not_ready)
  show "\<not> ready (runCaught rs s)" if "NoiseLoaded \<notin> set rs"
    using assms that
  proof (induction rs arbitrary: s)
    case Nil
    then show ?case by simp
  next
    case (Cons r rs)
    then have "\<not> ready (stateOf (perform r s))" by (intro perform_not_ready) auto
    with Cons show ?case by simp
  qed
  show "run rs s = Returns s" if "list_all isDrawRequest rs"
  proof -
    from that have n: "NoiseLoaded \<notin> set rs" and f: "filter (\<lambda>r. \<not> isDrawRequest r) rs = []"
      by (auto simp: list_all_iff filter_empty_conv)
    show ?thesis using run_not_ready [OF assms n] f by simp
  qed
  show "runCaught rs s = s" if "list_all isDrawRequest rs"
  proof -
    from that have n: "NoiseLoaded \<notin> set rs" and f: "filter (\<lambda>r. \<not> isDrawRequest r) rs = []"
      by (auto simp: list_all_iff filter_empty_conv)
    show ?thesis using runCaught_not_ready [OF assms n] f by simp
  qed
qed

text \<open>The freshly constructed pipeline is not ready, and draws leave it as it is.\<close>

theorem not_ready_draw_is_noop_witness:
  "\<not> ready (newRenderingPipeline exampleSize) \<and>
   draw (exampleEnv True True True) cameraA (newRenderingPipeline exampleSize)
     = Returns (newRenderingPipeline exampleSize) \<and>
   drawFull (exampleEnv False True True) cameraA (newRenderingPipeline exampleSize)
     = Returns (newRenderingPipeline exampleSize) \<and>
   run [Draw (exampleEnv True True True) cameraA, DrawFull (exampleEnv False True True) cameraB]
     (newRenderingPipeline exampleSize) = Returns (newRenderingPipeline exampleSize) \<and>
   run [Draw (exampleEnv True True True) cameraA, Time 5,
        DrawFull (exampleEnv True True True) cameraB]
     (newRenderingPipeline exampleSize) = run [Time 5] (newRenderingPipeline exampleSize) \<and>
   runCaught [SetSize 800 600 (exampleEnv False True True),
              Draw (exampleEnv False True True) cameraA, Time 5]
     (newRenderingPipeline exampleSize)
     = runCaught [SetSize 800 600 (exampleEnv False True True), Time 5]
         (newRenderingPipeline exampleSize)"
proof -
  have h: "\<not> ready (newRenderingPipeline exampleSize)"
    by (simp add: newRenderingPipeline_def)
  show ?thesis
    using h
      not_ready_draw_is_noop [OF h, of "exampleEnv True True True" cameraA
        "[Draw (exampleEnv True True True) cameraA, DrawFull (exampleEnv False True True) cameraB]"]
      not_ready_draw_is_noop [OF h, of "exampleEnv False True True" cameraA
        "[Draw (exampleEnv True True True) cameraA, Time 5,
          DrawFull (exampleEnv True True True) cameraB]"]
      not_ready_draw_is_noop [OF h, of "exampleEnv False True True" cameraA
        "[SetSize 800 600 (exampleEnv False True True),
          Draw (exampleEnv False True True) cameraA, Time 5]"]
    by (simp del: run.simps runCaught.simps)
qed

end
